theory Spec2Isabelle
  imports Main "HOL-Library.Word"
begin

unbundle bit_operations_syntax

section \<open>Tokens and the regular-expression lexer\<close>

text \<open>
  The package \<open>parser\<close> declares its lexer as one regular expression (variable \<open>Lexer\<close>)
  handed to \<open>lexer.Regexp\<close>. That lexer matches the expression at the head of the
  input that is still unread, takes the first alternative (in the order written) that
  matches there, and names the token after the named group that took part in the match.
  A match of the unnamed group \<open>(\s+)\<close> is skipped; a match of the last alternative
  \<open>;\<close>, which lies in no group, is a token without a type. Text is a Go string, that is
  a sequence of bytes: \<^typ>\<open>string\<close>.
\<close>

datatype token_type = Keyword | QuotedIdent | Ident | Number | String | Operators | NoType

datatype token = Token (Type: token_type) (Value: string)

datatype error = LexError | ParseError

subsection \<open>Character classes of the expression\<close>

definition is_space :: "char \<Rightarrow> bool" where
  \<comment> \<open>\<open>\s\<close>: tab, newline, form feed, carriage return, space\<close>
  "is_space c = (c \<in> set [CHR 0x09, CHR 0x0A, CHR 0x0C, CHR 0x0D, CHR '' ''])"

definition is_digit :: "char \<Rightarrow> bool" where
  \<comment> \<open>\<open>\d\<close>\<close>
  "is_digit c = (c \<in> set ''0123456789'')"

definition is_ident_start :: "char \<Rightarrow> bool" where
  \<comment> \<open>\<open>[a-zA-Z_]\<close>\<close>
  "is_ident_start c =
     (c \<in> set ''abcdefghijklmnopqrstuvwxyzABCDEFGHIJKLMNOPQRSTUVWXYZ_'')"

definition is_word :: "char \<Rightarrow> bool" where
  \<comment> \<open>\<open>[a-zA-Z0-9_]\<close>, also the word characters of \<open>\b\<close>\<close>
  "is_word c = (is_ident_start c \<or> is_digit c)"

definition ascii_upper :: "char \<Rightarrow> char" where
  "ascii_upper c =
     (case map_of (zip ''abcdefghijklmnopqrstuvwxyz'' ''ABCDEFGHIJKLMNOPQRSTUVWXYZ'') c of
        Some u \<Rightarrow> u
      | None \<Rightarrow> c)"

definition word_boundary :: "bool \<Rightarrow> string \<Rightarrow> bool" where
  \<comment> \<open>\<open>\b\<close> between a character that is a word character or not (\<open>False\<close> at the start
      of the text) and the rest of the text\<close>
  "word_boundary prev rest =
     (prev \<noteq> (case rest of [] \<Rightarrow> False | c # _ \<Rightarrow> is_word c))"

subsection \<open>The alternatives\<close>

text \<open>
  Every alternative is a function from the unread text to the lexeme it matches and the
  text after it, or \<open>None\<close>. Greedy operators take the longest run first and give back
  only when the rest of the alternative fails, which the functions below write out.
\<close>

definition match_space :: "string \<Rightarrow> (string \<times> string) option" where
  \<comment> \<open>\<open>(\s+)\<close>\<close>
  "match_space s =
     (if takeWhile is_space s = [] then None
      else Some (takeWhile is_space s, dropWhile is_space s))"

definition keyword_list :: "string list" where
  "keyword_list =
     [''SELECT'', ''FROM'', ''WHERE'', ''LIMIT'', ''OFFSET'', ''INSERT'', ''INTO'', ''VALUES'',
      ''TRUE'', ''FALSE'', ''NULL'', ''NOT'', ''BETWEEN'', ''AND'', ''OR'', ''USE'', ''INDEX'',
      ''ASC'', ''DESC'', ''CREATE'', ''TABLE'', ''HASH'', ''RANGE'', ''PROJECTION'',
      ''PROVISIONED'', ''THROUGHPUT'', ''READ'', ''WRITE'', ''GLOBAL'', ''LOCAL'', ''INDEX'',
      ''SECONDARY'', ''STRING'', ''NUMBER'', ''BINARY'', ''RETURNING'', ''NONE'', ''ALL_OLD'',
      ''UPDATED_OLD'', ''ALL_NEW'', ''UPDATED_NEW'', ''DELETE'', ''CHECK'']"

text \<open>
  Under \<open>(?i)\<close> a letter of the pattern matches both of its cases and the other
  characters of its case-folding orbit: for \<open>S\<close> the long s (U+017F, bytes C5 BF), for
  \<open>K\<close> the Kelvin sign (U+212A, bytes E2 84 AA). \<open>fold_char\<close> gives the text after the
  character and whether the character matched is a word character.
\<close>

fun fold_char :: "char \<Rightarrow> string \<Rightarrow> (string \<times> bool) option" where
  "fold_char p [] = None"
| "fold_char p (c # cs) =
     (if ascii_upper c = p then Some (cs, True)
      else if p = CHR ''S'' \<and> c = CHR 0xC5 \<and> take 1 cs = [CHR 0xBF]
        then Some (drop 1 cs, False)
      else if p = CHR ''K'' \<and> c = CHR 0xE2 \<and> take 2 cs = [CHR 0x84, CHR 0xAA]
        then Some (drop 2 cs, False)
      else None)"

fun match_fold :: "string \<Rightarrow> bool \<Rightarrow> string \<Rightarrow> (string \<times> bool) option" where
  "match_fold [] w s = Some (s, w)"
| "match_fold (p # ps) w s =
     (case fold_char p s of
        None \<Rightarrow> None
      | Some (r, w') \<Rightarrow> match_fold ps w' r)"

definition match_word :: "string \<Rightarrow> string \<Rightarrow> (string \<times> string) option" where
  \<comment> \<open>one word of the keyword alternation, followed by \<open>\b\<close>\<close>
  "match_word s k =
     (case match_fold k False s of
        None \<Rightarrow> None
      | Some (r, w) \<Rightarrow>
          if word_boundary w r then Some (take (length s - length r) s, r) else None)"

definition match_Keyword :: "string \<Rightarrow> (string \<times> string) option" where
  \<comment> \<open>\<open>\b(?P<Keyword>(?i)SELECT|FROM|...|CHECK)\b\<close>; the unread text starts the
      match, so the first \<open>\b\<close> asks for a word character at its head\<close>
  "match_Keyword s =
     (if word_boundary False s
      then (case List.map_filter (match_word s) keyword_list of [] \<Rightarrow> None | m # _ \<Rightarrow> Some m)
      else None)"

definition match_QuotedIdent :: "string \<Rightarrow> (string \<times> string) option" where
  \<comment> \<open>a back-tick, \<open>[^`]+\<close>, a back-tick\<close>
  "match_QuotedIdent s =
     (case s of
        [] \<Rightarrow> None
      | c # cs \<Rightarrow>
          if c = CHR 0x60 \<and> takeWhile (\<lambda>x. x \<noteq> CHR 0x60) cs \<noteq> []
             \<and> dropWhile (\<lambda>x. x \<noteq> CHR 0x60) cs \<noteq> []
          then Some (c # takeWhile (\<lambda>x. x \<noteq> CHR 0x60) cs @ [CHR 0x60],
                     tl (dropWhile (\<lambda>x. x \<noteq> CHR 0x60) cs))
          else None)"

definition match_Ident :: "string \<Rightarrow> (string \<times> string) option" where
  \<comment> \<open>\<open>[a-zA-Z_][a-zA-Z0-9_]*\<close>\<close>
  "match_Ident s =
     (case s of
        [] \<Rightarrow> None
      | c # cs \<Rightarrow>
          if is_ident_start c then Some (c # takeWhile is_word cs, dropWhile is_word cs)
          else None)"

definition match_mantissa :: "string \<Rightarrow> (string \<times> string) option" where
  \<comment> \<open>\<open>\d*\.?\d+\<close>: the digits, a point and digits when both are there; else the digits
      alone, of which there must be one\<close>
  "match_mantissa s =
     (let ds = takeWhile is_digit s; r = dropWhile is_digit s in
      case r of
        c # r' \<Rightarrow>
          if c = CHR ''.'' \<and> takeWhile is_digit r' \<noteq> []
          then Some (ds @ c # takeWhile is_digit r', dropWhile is_digit r')
          else if ds = [] then None else Some (ds, r)
      | [] \<Rightarrow> if ds = [] then None else Some (ds, r))"

definition match_sign :: "string \<Rightarrow> string \<times> string" where
  \<comment> \<open>\<open>[-+]?\<close>\<close>
  "match_sign s =
     (case s of
        [] \<Rightarrow> ([], s)
      | c # cs \<Rightarrow> if c = CHR ''-'' \<or> c = CHR ''+'' then ([c], cs) else ([], s))"

definition match_exponent :: "string \<Rightarrow> string \<times> string" where
  \<comment> \<open>\<open>([eE][-+]?\d+)?\<close>\<close>
  "match_exponent s =
     (case s of
        [] \<Rightarrow> ([], s)
      | c # cs \<Rightarrow>
          if c = CHR ''e'' \<or> c = CHR ''E''
          then (let (sg, r) = match_sign cs in
                if takeWhile is_digit r = [] then ([], s)
                else (c # sg @ takeWhile is_digit r, dropWhile is_digit r))
          else ([], s))"

definition match_Number :: "string \<Rightarrow> (string \<times> string) option" where
  \<comment> \<open>\<open>[-+]?\d*\.?\d+([eE][-+]?\d+)?\<close>\<close>
  "match_Number s =
     (let (sg, r) = match_sign s in
      case match_mantissa r of
        None \<Rightarrow> None
      | Some (m, r') \<Rightarrow> (let (e, r'') = match_exponent r' in Some (sg @ m @ e, r'')))"

definition match_quoted :: "char \<Rightarrow> string \<Rightarrow> (string \<times> string) option" where
  "match_quoted q s =
     (case s of
        [] \<Rightarrow> None
      | c # cs \<Rightarrow>
          if c = q \<and> dropWhile (\<lambda>x. x \<noteq> q) cs \<noteq> []
          then Some (c # takeWhile (\<lambda>x. x \<noteq> q) cs @ [q], tl (dropWhile (\<lambda>x. x \<noteq> q) cs))
          else None)"

definition match_String :: "string \<Rightarrow> (string \<times> string) option" where
  \<comment> \<open>\<open>'[^']*'|"[^"]*"\<close>\<close>
  "match_String s =
     (case match_quoted (CHR 0x27) s of
        Some m \<Rightarrow> Some m
      | None \<Rightarrow> match_quoted (CHR 0x22) s)"

definition match_Operators :: "string \<Rightarrow> (string \<times> string) option" where
  \<comment> \<open>\<open><>|!=|<=|>=|[-+*/%:?,.()=<>\[\]{}]\<close>\<close>
  "match_Operators s =
     (if take 2 s \<in> set [''<>'', ''!='', ''<='', ''>=''] then Some (take 2 s, drop 2 s)
      else case s of
        [] \<Rightarrow> None
      | c # cs \<Rightarrow> if c \<in> set ''-+*/%:?,.()=<>[]{}'' then Some ([c], cs) else None)"

definition match_semicolon :: "string \<Rightarrow> (string \<times> string) option" where
  "match_semicolon s =
     (case s of [] \<Rightarrow> None | c # cs \<Rightarrow> if c = CHR '';'' then Some ([c], cs) else None)"

text \<open>
  The whole expression at the head of the text: the first alternative that matches, with
  the type of its group (\<open>None\<close> for the skipped white space).
\<close>

definition alternatives :: "(token_type option \<times> (string \<Rightarrow> (string \<times> string) option)) list" where
  "alternatives =
     [(None, match_space), (Some Keyword, match_Keyword), (Some QuotedIdent, match_QuotedIdent),
      (Some Ident, match_Ident), (Some Number, match_Number), (Some String, match_String),
      (Some Operators, match_Operators), (Some NoType, match_semicolon)]"

fun first_match ::
  "(token_type option \<times> (string \<Rightarrow> (string \<times> string) option)) list \<Rightarrow> string \<Rightarrow>
   (token_type option \<times> string \<times> string) option" where
  "first_match [] s = None"
| "first_match ((ty, m) # as) s =
     (case m s of Some (lexeme, rest) \<Rightarrow> Some (ty, lexeme, rest) | None \<Rightarrow> first_match as s)"

definition match_regexp :: "string \<Rightarrow> (token_type option \<times> string \<times> string) option" where
  "match_regexp s = first_match alternatives s"

subsection \<open>Every match takes at least one character\<close>

lemma match_fold_length:
  "match_fold k w s = Some (r, w') \<Longrightarrow> length r + length k \<le> length s"
proof (induction k arbitrary: w s)
  case Nil
  then show ?case by simp
next
  case (Cons p ps)
  show ?case
  proof (cases s)
    case Nil
    with Cons.prems show ?thesis by simp
  next
    case (Cons c cs)
    from Cons.prems obtain r1 w1 where f: "fold_char p s = Some (r1, w1)" and m: "match_fold ps w1 r1 = Some (r, w')"
      by (auto split: option.splits)
    from f Cons have "length r1 < length s"
      by (auto split: if_splits)
    with Cons.IH [OF m] show ?thesis by simp
  qed
qed

lemma match_space_shorter: "match_space s = Some (l, r) \<Longrightarrow> length r < length s"
  by (cases s) (auto simp: match_space_def length_dropWhile_le le_imp_less_Suc split: if_splits)

lemma match_Ident_shorter: "match_Ident s = Some (l, r) \<Longrightarrow> length r < length s"
  by (cases s) (auto simp: match_Ident_def length_dropWhile_le le_imp_less_Suc split: if_splits)

lemma match_Operators_shorter: "match_Operators s = Some (l, r) \<Longrightarrow> length r < length s"
  by (cases s) (auto simp: match_Operators_def split: if_splits)

lemma match_semicolon_shorter: "match_semicolon s = Some (l, r) \<Longrightarrow> length r < length s"
  by (cases s) (auto simp: match_semicolon_def split: if_splits)

lemma tl_dropWhile_shorter: "length (tl (dropWhile P cs)) \<le> length cs"
proof -
  have "length (tl (dropWhile P cs)) \<le> length (dropWhile P cs)" by simp
  also have "\<dots> \<le> length cs" by (rule length_dropWhile_le)
  finally show ?thesis .
qed

lemma match_quoted_shorter: "match_quoted q s = Some (l, r) \<Longrightarrow> length r < length s"
  using tl_dropWhile_shorter [of "\<lambda>x. x \<noteq> q"]
  by (cases s) (auto simp: match_quoted_def le_imp_less_Suc split: if_splits)

lemma match_String_shorter: "match_String s = Some (l, r) \<Longrightarrow> length r < length s"
  by (auto simp: match_String_def split: option.splits dest: match_quoted_shorter)

lemma match_QuotedIdent_shorter: "match_QuotedIdent s = Some (l, r) \<Longrightarrow> length r < length s"
  using tl_dropWhile_shorter [of "\<lambda>x. x \<noteq> CHR 0x60"]
  by (cases s) (auto simp: match_QuotedIdent_def le_imp_less_Suc split: if_splits)

lemma map_filter_hd:
  "List.map_filter f xs = m # ms \<Longrightarrow> \<exists>x \<in> set xs. f x = Some m"
  by (induction xs) (auto simp: List.map_filter_simps split: option.splits)

lemma match_word_shorter:
  assumes "k \<noteq> []" and "match_word s k = Some (l, r)"
  shows "length r < length s"
proof -
  from assms(2) obtain w where "match_fold k False s = Some (r, w)"
    by (auto simp: match_word_def split: option.splits if_splits)
  from match_fold_length [OF this] have "length r + length k \<le> length s" .
  moreover from assms(1) have "0 < length k" by simp
  ultimately show ?thesis by linarith
qed

lemma match_Keyword_shorter: "match_Keyword s = Some (l, r) \<Longrightarrow> length r < length s"
proof -
  assume a: "match_Keyword s = Some (l, r)"
  then obtain ms where "List.map_filter (match_word s) keyword_list = (l, r) # ms"
    by (auto simp: match_Keyword_def split: if_splits list.splits)
  from map_filter_hd [OF this] obtain k where k: "k \<in> set keyword_list" "match_word s k = Some (l, r)"
    by blast
  from k(1) have "k \<noteq> []" by (auto simp: keyword_list_def)
  from match_word_shorter [OF this k(2)] show ?thesis .
qed

lemma match_sign_shorter: "match_sign t = (l, r) \<Longrightarrow> length r \<le> length t"
  by (cases t) (auto simp: match_sign_def split: if_splits)

lemma dropWhile_shorter: "takeWhile P t \<noteq> [] \<Longrightarrow> length (dropWhile P t) < length t"
  by (cases t) (auto simp: le_imp_less_Suc length_dropWhile_le split: if_splits)

lemma match_mantissa_shorter: "match_mantissa t = Some (l, r) \<Longrightarrow> length r < length t"
proof -
  assume a: "match_mantissa t = Some (l, r)"
  show ?thesis
  proof (cases "dropWhile is_digit t")
    case Nil
    with a show ?thesis
      by (auto simp: match_mantissa_def Let_def split: if_splits dest: dropWhile_shorter)
  next
    case (Cons c r')
    have 1: "length r' < length t"
      using length_dropWhile_le [of is_digit t] Cons by simp
    have 2: "length (dropWhile is_digit r') \<le> length r'" by (rule length_dropWhile_le)
    from a Cons 1 2 show ?thesis
      by (auto simp: match_mantissa_def Let_def split: if_splits dest: dropWhile_shorter)
  qed
qed

lemma match_exponent_shorter: "match_exponent t = (l, r) \<Longrightarrow> length r \<le> length t"
proof (cases t)
  case Nil
  assume "match_exponent t = (l, r)"
  with Nil show ?thesis by (simp add: match_exponent_def)
next
  case (Cons c cs)
  assume a: "match_exponent t = (l, r)"
  obtain sg' r' where s': "match_sign cs = (sg', r')" by force
  from match_sign_shorter [OF this] have "length r' \<le> length cs" .
  moreover have "length (dropWhile is_digit r') \<le> length r'"
    by (rule length_dropWhile_le)
  ultimately show ?thesis
    using a Cons s' by (auto simp: match_exponent_def split: if_splits)
qed

lemma match_Number_shorter: "match_Number s = Some (l, r) \<Longrightarrow> length r < length s"
proof -
  assume a: "match_Number s = Some (l, r)"
  obtain sg' r1 where s1: "match_sign s = (sg', r1)" by force
  with a obtain m r2 where m: "match_mantissa r1 = Some (m, r2)"
    by (auto simp: match_Number_def split: option.splits)
  obtain e r3 where e: "match_exponent r2 = (e, r3)" by force
  from a s1 m e have "r = r3" by (simp add: match_Number_def)
  with match_sign_shorter [OF s1] match_mantissa_shorter [OF m] match_exponent_shorter [OF e]
  show ?thesis by simp
qed

lemma first_match_shorter:
  assumes "\<And>ty m l r. (ty, m) \<in> set as \<Longrightarrow> m s = Some (l, r) \<Longrightarrow> length r < length s"
    and "first_match as s = Some (ty, lexeme, rest)"
  shows "length rest < length s"
  using assms
proof (induction as)
  case Nil
  then show ?case by simp
next
  case (Cons a as)
  obtain ty' m where a: "a = (ty', m)" by (cases a)
  show ?case
  proof (cases "m s")
    case None
    with Cons a show ?thesis by auto
  next
    case (Some p)
    with Cons.prems(2) a have "m s = Some (lexeme, rest)" by (cases p) auto
    with Cons.prems(1) [of ty' m lexeme rest] a show ?thesis by simp
  qed
qed

lemma match_regexp_shorter:
  assumes "match_regexp s = Some (ty, lexeme, rest)"
  shows "length rest < length s"
proof (rule first_match_shorter [OF _ assms [unfolded match_regexp_def]])
  fix ty m l r
  assume "(ty, m) \<in> set alternatives" and "m s = Some (l, r)"
  then show "length r < length s"
    unfolding alternatives_def
    by (auto dest: match_space_shorter match_Keyword_shorter
      match_QuotedIdent_shorter match_Ident_shorter match_Number_shorter match_String_shorter
      match_Operators_shorter match_semicolon_shorter)
qed

subsection \<open>The token stream\<close>

text \<open>
  \<open>Next\<close> of the regular-expression lexer, run to the end of the text: while text is
  left, match the expression at its head; no match there is the error
  \<open>invalid token\<close>; a match of the unnamed group is dropped; any other match is a token.
\<close>

function Lexer :: "string \<Rightarrow> error + token list" where
  "Lexer s =
     (if s = [] then Inr []
      else case match_regexp s of
        None \<Rightarrow> Inl LexError
      | Some (ty, lexeme, rest) \<Rightarrow>
          (case Lexer rest of
             Inl e \<Rightarrow> Inl e
           | Inr ts \<Rightarrow> (case ty of None \<Rightarrow> Inr ts | Some t \<Rightarrow> Inr (Token t lexeme # ts))))"
  by pat_completeness auto
termination
  by (relation "measure length") (auto dest: match_regexp_shorter)

declare Lexer.simps [simp del]

subsection \<open>The token mappers\<close>

text \<open>
  The parser is built with \<open>participle.Unquote("String")\<close> and with \<open>UnquoteIdent()\<close>.
  The first removes the quotes of a String token and reads the text between them one
  \<open>strconv.UnquoteChar\<close> at a time, appending each character as UTF-8; an escape
  sequence Go does not know is an error. The second is the function of the source and
  removes the first and the last byte of a QuotedIdent token.
\<close>

definition unhex :: "char \<Rightarrow> nat option" where
  "unhex c =
     (let n = (of_char c :: nat) in
      if 48 \<le> n \<and> n \<le> 57 then Some (n - 48)
      else if 97 \<le> n \<and> n \<le> 102 then Some (n - 87)
      else if 65 \<le> n \<and> n \<le> 70 then Some (n - 55)
      else None)"

fun hex_value :: "nat \<Rightarrow> string \<Rightarrow> nat option" where
  "hex_value v [] = Some v"
| "hex_value v (c # cs) =
     (case unhex c of None \<Rightarrow> None | Some x \<Rightarrow> hex_value (16 * v + x) cs)"

fun octal_value :: "nat \<Rightarrow> string \<Rightarrow> nat option" where
  "octal_value v [] = Some v"
| "octal_value v (c # cs) =
     (let n = (of_char c :: nat) in
      if 48 \<le> n \<and> n \<le> 55 then octal_value (8 * v + (n - 48)) cs else None)"

definition encode_rune :: "nat \<Rightarrow> string" where
  \<comment> \<open>the UTF-8 bytes of a code point\<close>
  "encode_rune v =
     (if v < 0x80 then [char_of v]
      else if v < 0x800 then [char_of (0xC0 + v div 64), char_of (0x80 + v mod 64)]
      else if v < 0x10000
        then [char_of (0xE0 + v div 4096), char_of (0x80 + v div 64 mod 64),
              char_of (0x80 + v mod 64)]
      else [char_of (0xF0 + v div 262144), char_of (0x80 + v div 4096 mod 64),
            char_of (0x80 + v div 64 mod 64), char_of (0x80 + v mod 64)])"

definition cont_in :: "nat \<Rightarrow> nat \<Rightarrow> string \<Rightarrow> bool" where
  \<comment> \<open>the text has a next byte, within the bounds given\<close>
  "cont_in lo hi s = (case s of [] \<Rightarrow> False | c # _ \<Rightarrow> lo \<le> (of_char c :: nat) \<and> (of_char c :: nat) \<le> hi)"

definition rune_length :: "string \<Rightarrow> nat" where
  \<comment> \<open>\<open>utf8.DecodeRuneInString\<close>: the number of bytes of the well-formed UTF-8 sequence at
      the head of the text, 0 when there is none (the rune is then U+FFFD, of width 1)\<close>
  "rune_length s =
     (case s of
        [] \<Rightarrow> 0
      | c # cs \<Rightarrow>
          (let n = (of_char c :: nat);
               lo = (if n = 0xE0 then 0xA0 else if n = 0xF0 then 0x90 else 0x80);
               hi = (if n = 0xED then 0x9F else if n = 0xF4 then 0x8F else 0xBF);
               k = (if n < 0x80 then 1 else if n < 0xC2 then 0 else if n < 0xE0 then 2
                    else if n < 0xF0 then 3 else if n < 0xF5 then 4 else 0)
           in if k \<le> 1 then k
              else if \<not> cont_in lo hi cs then 0
              else if k = 2 then 2
              else if \<not> cont_in 0x80 0xBF (drop 1 cs) then 0
              else if k = 3 then 3
              else if \<not> cont_in 0x80 0xBF (drop 2 cs) then 0
              else 4))"

definition unquote_escape :: "char \<Rightarrow> char \<Rightarrow> string \<Rightarrow> (string \<times> string) option" where
  \<comment> \<open>the hard case of \<open>UnquoteChar\<close>: \<open>e\<close> is the byte after the backslash, \<open>r\<close> the
      text after it\<close>
  "unquote_escape quote e r =
     (if e = CHR ''a'' then Some ([CHR 0x07], r)
      else if e = CHR ''b'' then Some ([CHR 0x08], r)
      else if e = CHR ''f'' then Some ([CHR 0x0C], r)
      else if e = CHR ''n'' then Some ([CHR 0x0A], r)
      else if e = CHR ''r'' then Some ([CHR 0x0D], r)
      else if e = CHR ''t'' then Some ([CHR 0x09], r)
      else if e = CHR ''v'' then Some ([CHR 0x0B], r)
      else if e = CHR ''x'' \<or> e = CHR ''u'' \<or> e = CHR ''U''
        then (let n = (if e = CHR ''x'' then 2 else if e = CHR ''u'' then 4 else 8 :: nat) in
              if length r < n then None
              else case hex_value 0 (take n r) of
                  None \<Rightarrow> None
                | Some v \<Rightarrow>
                    if e = CHR ''x'' then Some (encode_rune v, drop n r)
                    else if v < 0xD800 \<or> (0xDFFF < v \<and> v \<le> 0x10FFFF)
                      then Some (encode_rune v, drop n r)
                    else None)
      else if e \<in> set ''01234567''
        then (if length r < 2 then None
              else case octal_value ((of_char e :: nat) - 48) (take 2 r) of
                  None \<Rightarrow> None
                | Some v \<Rightarrow> if v > 255 then None else Some (encode_rune v, drop 2 r))
      else if e = CHR 0x5C then Some ([e], r)
      else if e = CHR 0x27 \<or> e = CHR 0x22
        then (if e \<noteq> quote then None else Some ([e], r))
      else None)"

definition unquote_rune :: "string \<Rightarrow> string \<times> string" where
  \<comment> \<open>a first byte of 0x80 or more: the rune decoded and written again, U+FFFD for a
      byte that starts no well-formed sequence\<close>
  "unquote_rune s =
     (if rune_length s = 0 then ([CHR 0xEF, CHR 0xBF, CHR 0xBD], tl s)
      else (take (rune_length s) s, drop (rune_length s) s))"

definition UnquoteChar :: "char \<Rightarrow> string \<Rightarrow> (string \<times> string) option" where
  \<comment> \<open>\<open>strconv.UnquoteChar(s, quote)\<close>: the bytes of the first character, as
      \<open>string(value)\<close> writes them, and the tail; \<open>None\<close> is \<open>ErrSyntax\<close>\<close>
  "UnquoteChar quote s =
     (case s of
        [] \<Rightarrow> None
      | c # cs \<Rightarrow>
          if c = quote \<and> (quote = CHR 0x27 \<or> quote = CHR 0x22) then None
          else if (of_char c :: nat) \<ge> 0x80 then Some (unquote_rune s)
          else if c \<noteq> CHR 0x5C then Some ([c], cs)
          else (case cs of [] \<Rightarrow> None | e # r \<Rightarrow> unquote_escape quote e r))"

lemma unquote_escape_shorter: "unquote_escape q e r = Some (v, t) \<Longrightarrow> length t \<le> length r"
  unfolding unquote_escape_def Let_def
  by (simp split: if_splits option.splits; force)

lemma unquote_rune_shorter: "s \<noteq> [] \<Longrightarrow> unquote_rune s = (v, t) \<Longrightarrow> length t < length s"
  by (cases s) (auto simp: unquote_rune_def split: if_splits)

lemma UnquoteChar_shorter:
  assumes "UnquoteChar q s = Some (v, t)"
  shows "length t < length s"
proof (cases s)
  case Nil
  with assms show ?thesis by (simp add: UnquoteChar_def)
next
  case (Cons c cs)
  show ?thesis
  proof (cases "(of_char c :: nat) \<ge> 0x80")
    case True
    with assms Cons have "unquote_rune s = (v, t)"
      by (auto simp: UnquoteChar_def split: if_splits)
    with Cons unquote_rune_shorter [of s v t] show ?thesis by simp
  next
    case False
    show ?thesis
    proof (cases "c = CHR 0x5C")
      case False
      with assms Cons \<open>\<not> (of_char c :: nat) \<ge> 0x80\<close> show ?thesis
        by (auto simp: UnquoteChar_def split: if_splits)
    next
      case True
      with assms Cons \<open>\<not> (of_char c :: nat) \<ge> 0x80\<close>
      obtain e r where "cs = e # r" "unquote_escape q e r = Some (v, t)"
        by (auto simp: UnquoteChar_def split: if_splits list.splits)
      with Cons unquote_escape_shorter [of q e r v t] show ?thesis by simp
    qed
  qed
qed

function unquote_chars :: "char \<Rightarrow> string \<Rightarrow> string option" where
  "unquote_chars q s =
     (if s = [] then Some []
      else case UnquoteChar q s of
        None \<Rightarrow> None
      | Some (v, t) \<Rightarrow> (case unquote_chars q t of None \<Rightarrow> None | Some out \<Rightarrow> Some (v @ out)))"
  by pat_completeness auto
termination
  by (relation "measure (\<lambda>(q, s). length s)") (auto dest: UnquoteChar_shorter)

declare unquote_chars.simps [simp del]

definition unquote :: "string \<Rightarrow> string option" where
  \<comment> \<open>\<open>quote := s[0]; s = s[1 : len(s)-1]\<close> and the loop over \<open>UnquoteChar\<close>\<close>
  "unquote s = (case s of [] \<Rightarrow> None | q # r \<Rightarrow> unquote_chars q (butlast r))"

definition UnquoteIdent :: "token \<Rightarrow> token" where
  \<comment> \<open>\<open>t.Value = t.Value[1 : len(t.Value)-1]\<close>\<close>
  "UnquoteIdent t = Token (Type t) (butlast (tl (Value t)))"

definition map_token :: "token \<Rightarrow> error + token" where
  "map_token t =
     (if Type t = String
      then (case unquote (Value t) of None \<Rightarrow> Inl LexError | Some v \<Rightarrow> Inr (Token String v))
      else if Type t = QuotedIdent then Inr (UnquoteIdent t)
      else Inr t)"

fun map_tokens :: "token list \<Rightarrow> error + token list" where
  "map_tokens [] = Inr []"
| "map_tokens (t # ts) =
     (case map_token t of
        Inl e \<Rightarrow> Inl e
      | Inr t' \<Rightarrow> (case map_tokens ts of Inl e \<Rightarrow> Inl e | Inr ts' \<Rightarrow> Inr (t' # ts')))"

definition Lex :: "string \<Rightarrow> error + token list" where
  \<comment> \<open>the tokens the parser reads: the lexer's, through the mappers\<close>
  "Lex s = (case Lexer s of Inl e \<Rightarrow> Inl e | Inr ts \<Rightarrow> map_tokens ts)"

section \<open>Numbers\<close>

text \<open>
  A Number token captured into an integer field goes through
  \<open>strconv.ParseInt(v, 0, 64)\<close> and one captured into a \<open>float64\<close> field through
  \<open>strconv.ParseFloat(v, 64)\<close>; \<open>PathFragment.String\<close> prints an index with
  \<open>strconv.Itoa\<close>. The two readers are written for the texts the lexer can hand them,
  the lexemes of \<open>[-+]?\d*\.?\d+([eE][-+]?\d+)?\<close>. \<open>int\<close> is taken to have 64 bits.
\<close>

definition digit_val :: "char \<Rightarrow> int option" where
  \<comment> \<open>the value of a digit or letter in \<open>ParseUint\<close>\<close>
  "digit_val c =
     (let n = (of_char c :: int) in
      if 48 \<le> n \<and> n \<le> 57 then Some (n - 48)
      else if 97 \<le> n \<and> n \<le> 122 then Some (n - 87)
      else if 65 \<le> n \<and> n \<le> 90 then Some (n - 55)
      else None)"

fun digits_value :: "int \<Rightarrow> int \<Rightarrow> string \<Rightarrow> int option" where
  "digits_value base n [] = Some n"
| "digits_value base n (c # cs) =
     (case digit_val c of
        None \<Rightarrow> None
      | Some d \<Rightarrow> if d \<ge> base then None else digits_value base (n * base + d) cs)"

definition ParseUint :: "string \<Rightarrow> int option" where
  \<comment> \<open>base 0: a leading \<open>0\<close> selects base 8 (or, before \<open>b\<close>, \<open>o\<close>, \<open>x\<close>, base 2, 8,
      16), anything else base 10; the value must fit 64 bits\<close>
  "ParseUint s =
     (case s of
        [] \<Rightarrow> None
      | c # cs \<Rightarrow>
          (case (if c = CHR ''0''
                 then (if length s \<ge> 3 \<and> hd cs \<in> set ''bB'' then digits_value 2 0 (tl cs)
                       else if length s \<ge> 3 \<and> hd cs \<in> set ''oO'' then digits_value 8 0 (tl cs)
                       else if length s \<ge> 3 \<and> hd cs \<in> set ''xX'' then digits_value 16 0 (tl cs)
                       else digits_value 8 0 cs)
                 else digits_value 10 0 s) of
             None \<Rightarrow> None
           | Some n \<Rightarrow> if n < 2 ^ 64 then Some n else None))"

definition ParseInt :: "string \<Rightarrow> int option" where
  "ParseInt s =
     (case s of
        [] \<Rightarrow> None
      | c # cs \<Rightarrow>
          (let neg = (c = CHR ''-''); u = (if c = CHR ''+'' \<or> c = CHR ''-'' then cs else s) in
           case ParseUint u of
             None \<Rightarrow> None
           | Some n \<Rightarrow>
               if \<not> neg \<and> n \<ge> 2 ^ 63 then None
               else if neg \<and> n > 2 ^ 63 then None
               else Some (if neg then - n else n)))"

function digits_of :: "int \<Rightarrow> string" where
  \<comment> \<open>the decimal digits of a number that is not negative\<close>
  "digits_of n =
     (if n < 10 then [char_of (48 + n)] else digits_of (n div 10) @ [char_of (48 + n mod 10)])"
  by pat_completeness auto
termination
  by (relation "measure nat") auto

declare digits_of.simps [simp del]

definition Itoa :: "int \<Rightarrow> string" where
  "Itoa i = (if i < 0 then CHR ''-'' # digits_of (- i) else digits_of i)"

text \<open>
  A \<open>float64\<close> is its 64 bits. \<open>ParseFloat\<close> gives the double nearest to the decimal
  number written, ties to the even mantissa, and an error when that is beyond the largest
  double.
\<close>

type_synonym float64 = "64 word"

function bit_length :: "int \<Rightarrow> nat" where
  "bit_length n = (if n \<le> 0 then 0 else Suc (bit_length (n div 2)))"
  by pat_completeness auto
termination
  by (relation "measure nat") auto

declare bit_length.simps [simp del]

definition round_half_even :: "int \<Rightarrow> int \<Rightarrow> int" where
  \<comment> \<open>\<open>a / b\<close> to the nearest integer\<close>
  "round_half_even a b =
     (let q = a div b; r = a mod b in
      if 2 * r < b then q else if 2 * r > b then q + 1 else if even q then q else q + 1)"

definition scale2 :: "int \<Rightarrow> int \<Rightarrow> int \<Rightarrow> int \<times> int" where
  \<comment> \<open>\<open>(a / b) / 2 ^ k\<close> as a fraction\<close>
  "scale2 a b k = (if k \<ge> 0 then (a, b * 2 ^ nat k) else (a * 2 ^ nat (- k), b))"

definition floor_log2 :: "int \<Rightarrow> int \<Rightarrow> int" where
  \<comment> \<open>the \<open>e\<close> with \<open>2 ^ e \<le> a / b < 2 ^ (e + 1)\<close>, for \<open>a, b > 0\<close>\<close>
  "floor_log2 a b =
     (let k = int (bit_length a) - int (bit_length b);
          (a', b') = scale2 a b k
      in if a' \<ge> b' then k else k - 1)"

definition float64_bits :: "bool \<Rightarrow> int \<Rightarrow> int \<Rightarrow> float64 option" where
  \<comment> \<open>the double nearest to \<open>\<plusminus> a / b\<close>; \<open>None\<close> when out of range\<close>
  "float64_bits neg a b =
     (let sign = (if neg then 2 ^ 63 else 0 :: int) in
      if a = 0 then Some (of_int sign)
      else
        (let e = max (floor_log2 a b) (- 1022);
             (a', b') = scale2 a b (e - 52);
             bits = (e + 1022) * 2 ^ 52 + round_half_even a' b'
         in if bits \<ge> 2047 * 2 ^ 52 then None else Some (of_int (sign + bits))))"

definition decimal_value :: "string \<Rightarrow> int" where
  "decimal_value ds = (case digits_value 10 0 ds of Some n \<Rightarrow> n | None \<Rightarrow> 0)"

definition ParseFloat :: "string \<Rightarrow> float64 option" where
  "ParseFloat s =
     (let (sg, r) = match_sign s;
          ip = takeWhile is_digit r; r1 = dropWhile is_digit r;
          fp = (if take 1 r1 = ''.'' then takeWhile is_digit (drop 1 r1) else []);
          r2 = (if take 1 r1 = ''.'' then dropWhile is_digit (drop 1 r1) else r1);
          (esg, ed) = (if take 1 r2 = ''e'' \<or> take 1 r2 = ''E'' then match_sign (drop 1 r2)
                       else ([], []));
          ok = (ip @ fp \<noteq> [] \<and>
                (r2 = [] \<or> ((take 1 r2 = ''e'' \<or> take 1 r2 = ''E'') \<and> ed \<noteq> []
                            \<and> list_all is_digit ed)));
          m = decimal_value (ip @ fp);
          x = (if esg = ''-'' then - decimal_value ed else decimal_value ed) - int (length fp)
      in if \<not> ok then None
         else if x \<ge> 0 then float64_bits (sg = ''-'') (m * 10 ^ nat x) 1
         else float64_bits (sg = ''-'') m (10 ^ nat (- x)))"

section \<open>The syntax tree\<close>

text \<open>
  One type per struct of the source, fields in the order written. A field is named after
  its struct and its name in the source. A pointer field is an \<open>option\<close> (\<open>None\<close> is
  \<open>nil\<close>), a slice a list, an embedded struct a field of that struct's type.
  \<open>Boolean\<close> and \<open>ScanDescending\<close> are \<open>bool\<close>.
\<close>

record ProvisionedThroughput =
  ProvisionedThroughput_ReadCapacityUnits :: int
  ProvisionedThroughput_WriteCapacityUnits :: int

record Projection =
  Projection_KeysOnly :: bool
  Projection_All :: bool
  Projection_Include :: "string list"

record GlobalSecondaryIndex =
  GlobalSecondaryIndex_Name :: string
  GlobalSecondaryIndex_PartitionKey :: string
  GlobalSecondaryIndex_SortKey :: string
  GlobalSecondaryIndex_Projection :: "Projection option"
  GlobalSecondaryIndex_ProvisionedThroughput :: "ProvisionedThroughput option"

record LocalSecondaryIndex =
  LocalSecondaryIndex_Name :: string
  LocalSecondaryIndex_SortKey :: string
  LocalSecondaryIndex_Projection :: "Projection option"

record TableAttr =
  TableAttr_Name :: string
  TableAttr_Type :: string
  TableAttr_Key :: string

record CreateTableEntry =
  CreateTableEntry_GlobalSecondaryIndex :: "GlobalSecondaryIndex option"
  CreateTableEntry_LocalSecondaryIndex :: "LocalSecondaryIndex option"
  CreateTableEntry_ProvisionedThroughput :: "ProvisionedThroughput option"
  CreateTableEntry_Attr :: "TableAttr option"

record CreateTable =
  CreateTable_Table :: string
  CreateTable_Entries :: "CreateTableEntry list"

record Scalar =
  Scalar_Number :: "float64 option"
  Scalar_Str :: "string option"
  Scalar_Boolean :: "bool option"
  Scalar_Null :: bool

record Value =
  Value_Scalar :: Scalar
  Value_PlaceHolder :: "string option"
  Value_PositionalPlaceholder :: bool

record PathFragment =
  PathFragment_Symbol :: string
  PathFragment_Indexes :: "int list"

record DocumentPath =
  DocumentPath_Fragment :: "PathFragment list"

record Operand =
  Operand_Value :: "Value option"
  Operand_SymbolRef :: "DocumentPath option"

record Between =
  Between_Start :: "Operand option"
  Between_End :: "Operand option"

record Compare =
  Compare_Operator :: string
  Compare_Operand :: "Operand option"

record In =
  In_Values :: "Value list"

record ConditionRHS =
  ConditionRHS_Compare :: "Compare option"
  ConditionRHS_Between :: "Between option"
  ConditionRHS_In :: "In option"

record ConditionOperand =
  ConditionOperand_Operand :: "DocumentPath option"
  ConditionOperand_ConditionRHS :: "ConditionRHS option"

record FunctionArgument =
  FunctionArgument_DocumentPath :: "DocumentPath option"
  FunctionArgument_Value :: "Value option"

record FunctionExpression =
  FunctionExpression_Function :: string
  FunctionExpression_Args :: "FunctionArgument list"

datatype ConditionExpression =
  ConditionExpression (ConditionExpression_Or: "AndExpression list")
and AndExpression =
  AndExpression (AndExpression_And: "Condition list")
and ParenthesizedExpression =
  ParenthesizedExpression (ParenthesizedExpression_ConditionExpression: "ConditionExpression option")
and Condition =
  Condition (Condition_Parenthesized: "ParenthesizedExpression option")
            (Condition_Not: "NotCondition option")
            (Condition_Operand: "ConditionOperand option")
            (Condition_Function: "FunctionExpression option")
and NotCondition =
  NotCondition (NotCondition_Condition: "Condition option")

record ProjectionColumn =
  ProjectionColumn_Function :: "FunctionExpression option"
  ProjectionColumn_DocumentPath :: "DocumentPath option"

record ProjectionExpression =
  ProjectionExpression_All :: bool
  ProjectionExpression_Columns :: "ProjectionColumn list"

record Select =
  Select_Projection :: "ProjectionExpression option"
  Select_From :: string
  Select_Index :: "string option"
  Select_Where :: "AndExpression option"
  Select_Descending :: "bool option"
  Select_Limit :: "int option"

datatype JSONObjectEntry =
  JSONObjectEntry (JSONObjectEntry_Key: string) (JSONObjectEntry_Value: "JSONValue option")
and JSONObject =
  JSONObject (JSONObject_Entries: "JSONObjectEntry list")
and JSONArray =
  JSONArray (JSONArray_Entries: "JSONValue list")
and JSONValue =
  JSONValue (JSONValue_Scalar: Scalar)
            (JSONValue_Object: "JSONObject option")
            (JSONValue_Array: "JSONArray option")

record InsertTerminal =
  InsertTerminal_Value :: Value
  InsertTerminal_Object :: "JSONObject option"

record Insert =
  Insert_Into :: string
  Insert_Values :: "InsertTerminal list"
  Insert_Returning :: "string option"

record AST =
  AST_Select :: "Select option"
  AST_Insert :: "Insert option"
  AST_Replace :: "Insert option"
  AST_CreateTable :: "CreateTable option"

section \<open>The grammar nodes of the parser generator\<close>

text \<open>
  \<open>participle.MustBuild\<close> reads the struct tags as a grammar and builds a tree of nodes;
  parsing runs the tree over the token stream. A node does not match, fails, or matches
  with the strings it read; a capture (\<open>@\<close>) defers setting its field until the struct
  it belongs to is complete. The nodes below are the ones the tags of this package use.

  \<^item> A sequence does not match when its first node does not; a later node that does not
    match is an error.
  \<^item> An alternative (\<open>|\<close>), an optional node (\<open>?\<close>) and a repetition (\<open>*\<close>) try a node
    on a branch. An error on a branch is dropped, and the next alternative tried or the
    node taken as absent, unless the branch read more than \<open>lookahead\<close> tokens
    (\<open>participle.UseLookahead(2)\<close>): then the error stands.
  \<^item> A repetition gives up with a panic after \<open>MaxIterations\<close> rounds.

  \<open>Error r\<close> records the tokens still unread where the parser stood.
\<close>

datatype 'a result = NoMatch | Error "token list" | Panic | Match 'a "token list"

type_synonym 'p deferred = "'p \<Rightarrow> 'p option"

type_synonym 'p node = "token list \<Rightarrow> (string list \<times> 'p deferred list) result"

definition lookahead :: nat where
  "lookahead = 2"

definition MaxIterations :: int where
  "MaxIterations = 1000000"

definition Stop :: "token list \<Rightarrow> token list \<Rightarrow> bool" where
  \<comment> \<open>\<open>branch.cursor > p.cursor + p.lookahead\<close>, on the tokens left unread\<close>
  "Stop ctx branch = (length branch + lookahead < length ctx)"

definition EqualFold :: "string \<Rightarrow> string \<Rightarrow> bool" where
  \<comment> \<open>\<open>strings.EqualFold\<close> of a token's text and a literal of the grammar\<close>
  "EqualFold v lit =
     (case match_fold (map ascii_upper lit) False v of
        Some (r, w) \<Rightarrow> r = []
      | None \<Rightarrow> False)"

definition matches_literal :: "string \<Rightarrow> token \<Rightarrow> bool" where
  \<comment> \<open>a token with this text, whatever its type; a token of type Keyword
      (\<open>participle.CaseInsensitive("Keyword")\<close>) is compared without regard to case\<close>
  "matches_literal s t = (if Type t = Keyword then EqualFold (Value t) s else Value t = s)"

definition literal :: "string \<Rightarrow> 'p node" where
  \<comment> \<open>\<open>"..."\<close>\<close>
  "literal s ts =
     (case ts of
        [] \<Rightarrow> NoMatch
      | t # r \<Rightarrow> if matches_literal s t then Match ([Value t], []) r else NoMatch)"

definition reference :: "token_type \<Rightarrow> 'p node" where
  \<comment> \<open>\<open>Ident\<close>, \<open>Number\<close>, ...: a token of this type\<close>
  "reference ty ts =
     (case ts of
        [] \<Rightarrow> NoMatch
      | t # r \<Rightarrow> if Type t = ty then Match ([Value t], []) r else NoMatch)"

fun sequence_rest :: "'p node list \<Rightarrow> 'p node" where
  "sequence_rest [] ts = Match ([], []) ts"
| "sequence_rest (n # ns) ts =
     (case n ts of
        NoMatch \<Rightarrow> Error ts
      | Error r \<Rightarrow> Error r
      | Panic \<Rightarrow> Panic
      | Match (vs, ds) r \<Rightarrow>
          (case sequence_rest ns r of
             Match (vs', ds') r' \<Rightarrow> Match (vs @ vs', ds @ ds') r'
           | e \<Rightarrow> e))"

fun sequence :: "'p node list \<Rightarrow> 'p node" where
  "sequence [] ts = NoMatch"
| "sequence (n # ns) ts =
     (case n ts of
        NoMatch \<Rightarrow> NoMatch
      | Error r \<Rightarrow> Error r
      | Panic \<Rightarrow> Panic
      | Match (vs, ds) r \<Rightarrow>
          (case sequence_rest ns r of
             Match (vs', ds') r' \<Rightarrow> Match (vs @ vs', ds @ ds') r'
           | e \<Rightarrow> e))"

fun disjunction_from :: "bool \<Rightarrow> 'p node list \<Rightarrow> 'p node" where
  \<comment> \<open>the flag: an alternative before has failed (\<open>firstError != nil\<close>)\<close>
  "disjunction_from failed [] ts = (if failed then Error ts else NoMatch)"
| "disjunction_from failed (n # ns) ts =
     (case n ts of
        NoMatch \<Rightarrow> disjunction_from failed ns ts
      | Error r \<Rightarrow> if Stop ts r then Error r else disjunction_from True ns ts
      | Panic \<Rightarrow> Panic
      | Match v r \<Rightarrow> Match v r)"

definition disjunction :: "'p node list \<Rightarrow> 'p node" where
  "disjunction ns = disjunction_from False ns"

definition optional :: "'p node \<Rightarrow> 'p node" where
  "optional n ts =
     (case n ts of
        NoMatch \<Rightarrow> Match ([], []) ts
      | Error r \<Rightarrow> if Stop ts r then Error r else Match ([], []) ts
      | Panic \<Rightarrow> Panic
      | Match v r \<Rightarrow> Match v r)"

function repetition_loop :: "int \<Rightarrow> 'p node \<Rightarrow> 'p node" where
  \<comment> \<open>\<open>for i := 0; i < MaxIterations; i++\<close>, and the panic after the loop\<close>
  "repetition_loop i n ts =
     (if i \<ge> MaxIterations then Panic
      else case n ts of
        NoMatch \<Rightarrow> Match ([], []) ts
      | Error r \<Rightarrow> if Stop ts r then Error r else Match ([], []) ts
      | Panic \<Rightarrow> Panic
      | Match (vs, ds) r \<Rightarrow>
          (case repetition_loop (i + 1) n r of
             Match (vs', ds') r' \<Rightarrow> Match (vs @ vs', ds @ ds') r'
           | e \<Rightarrow> e))"
  by pat_completeness auto
termination
  by (relation "measure (\<lambda>(i, n, ts). nat (MaxIterations - i))") auto

declare repetition_loop.simps [simp del]

definition repetition :: "'p node \<Rightarrow> 'p node" where
  "repetition n = repetition_loop 0 n"

definition capture :: "(string list \<Rightarrow> 'p deferred) \<Rightarrow> 'p node \<Rightarrow> 'p node" where
  \<comment> \<open>\<open>@node\<close>: the strings the node read are set into the field later\<close>
  "capture field n ts =
     (case n ts of
        NoMatch \<Rightarrow> NoMatch
      | Error r \<Rightarrow> Error r
      | Panic \<Rightarrow> Panic
      | Match (vs, ds) r \<Rightarrow> Match ([], ds @ [field vs]) r)"

definition capture_struct ::
  "('q \<Rightarrow> 'p deferred) \<Rightarrow> (token list \<Rightarrow> 'q result) \<Rightarrow> 'p node" where
  \<comment> \<open>\<open>@@\<close>: the struct of the field's type, parsed by its own grammar\<close>
  "capture_struct field p ts =
     (case p ts of
        NoMatch \<Rightarrow> NoMatch
      | Error r \<Rightarrow> Error r
      | Panic \<Rightarrow> Panic
      | Match v r \<Rightarrow> Match ([], [field v]) r)"

fun Apply :: "'p deferred list \<Rightarrow> 'p \<Rightarrow> 'p option" where
  "Apply [] p = Some p"
| "Apply (d # ds) p = (case d p of None \<Rightarrow> None | Some p' \<Rightarrow> Apply ds p')"

definition strct :: "'p \<Rightarrow> 'p node \<Rightarrow> token list \<Rightarrow> 'p result" where
  \<comment> \<open>a struct: its zero value, then the deferred fields set in order; a value that does
      not convert to its field's type is an error\<close>
  "strct zero n ts =
     (case n ts of
        NoMatch \<Rightarrow> NoMatch
      | Error r \<Rightarrow> Error r
      | Panic \<Rightarrow> Panic
      | Match (vs, ds) r \<Rightarrow> (case Apply ds zero of None \<Rightarrow> Error r | Some v \<Rightarrow> Match v r))"

subsection \<open>Setting a field\<close>

text \<open>
  \<open>setField\<close> by the kind of the field: a string field appends the strings captured, an
  integer or float field converts their concatenation, a \<open>bool\<close> field becomes true, a
  slice is appended to, a pointer to a struct is set, and a type with a \<open>Capture\<close> method
  (\<open>Boolean\<close>, \<open>ScanDescending\<close>) is handed the strings.
\<close>

definition set_string :: "('p \<Rightarrow> string) \<Rightarrow> (string \<Rightarrow> 'p \<Rightarrow> 'p) \<Rightarrow> string list \<Rightarrow> 'p deferred" where
  "set_string get put vs p = Some (put (get p @ concat vs) p)"

definition set_string_ptr ::
  "('p \<Rightarrow> string option) \<Rightarrow> (string option \<Rightarrow> 'p \<Rightarrow> 'p) \<Rightarrow> string list \<Rightarrow> 'p deferred" where
  "set_string_ptr get put vs p =
     Some (put (Some ((case get p of None \<Rightarrow> [] | Some x \<Rightarrow> x) @ concat vs)) p)"

definition append_string ::
  "('p \<Rightarrow> string list) \<Rightarrow> (string list \<Rightarrow> 'p \<Rightarrow> 'p) \<Rightarrow> string list \<Rightarrow> 'p deferred" where
  "append_string get put vs p = Some (put (get p @ vs) p)"

definition set_int :: "(int \<Rightarrow> 'p \<Rightarrow> 'p) \<Rightarrow> string list \<Rightarrow> 'p deferred" where
  "set_int put vs p = (case ParseInt (concat vs) of None \<Rightarrow> None | Some i \<Rightarrow> Some (put i p))"

fun conform_int :: "string list \<Rightarrow> int list option" where
  "conform_int [] = Some []"
| "conform_int (v # vs) =
     (case ParseInt v of
        None \<Rightarrow> None
      | Some i \<Rightarrow> (case conform_int vs of None \<Rightarrow> None | Some js \<Rightarrow> Some (i # js)))"

definition append_int ::
  "('p \<Rightarrow> int list) \<Rightarrow> (int list \<Rightarrow> 'p \<Rightarrow> 'p) \<Rightarrow> string list \<Rightarrow> 'p deferred" where
  "append_int get put vs p =
     (case conform_int vs of None \<Rightarrow> None | Some js \<Rightarrow> Some (put (get p @ js) p))"

definition set_float :: "(float64 \<Rightarrow> 'p \<Rightarrow> 'p) \<Rightarrow> string list \<Rightarrow> 'p deferred" where
  "set_float put vs p = (case ParseFloat (concat vs) of None \<Rightarrow> None | Some x \<Rightarrow> Some (put x p))"

definition set_bool :: "(bool \<Rightarrow> 'p \<Rightarrow> 'p) \<Rightarrow> string list \<Rightarrow> 'p deferred" where
  "set_bool put vs p = Some (put True p)"

definition set_struct :: "('q option \<Rightarrow> 'p \<Rightarrow> 'p) \<Rightarrow> 'q \<Rightarrow> 'p deferred" where
  "set_struct put v p = Some (put (Some v) p)"

definition append_struct :: "('p \<Rightarrow> 'q list) \<Rightarrow> ('q list \<Rightarrow> 'p \<Rightarrow> 'p) \<Rightarrow> 'q \<Rightarrow> 'p deferred" where
  "append_struct get put v p = Some (put (get p @ [v]) p)"

fun ToUpper :: "string \<Rightarrow> string" where
  \<comment> \<open>\<open>strings.ToUpper\<close> on the text of a Keyword token: letters, \<open>_\<close> and the long s\<close>
  "ToUpper [] = []"
| "ToUpper (c # cs) =
     (if c = CHR 0xC5 \<and> take 1 cs = [CHR 0xBF] then CHR ''S'' # ToUpper (drop 1 cs)
      else ascii_upper c # ToUpper cs)"

definition Boolean_Capture :: "(bool \<Rightarrow> 'p \<Rightarrow> 'p) \<Rightarrow> string list \<Rightarrow> 'p deferred" where
  \<comment> \<open>\<open>*b = strings.ToUpper(values[0]) == "TRUE"\<close>\<close>
  "Boolean_Capture put vs p =
     (case vs of [] \<Rightarrow> None | v # _ \<Rightarrow> Some (put (ToUpper v = ''TRUE'') p))"

definition ScanDescending_Capture :: "(bool \<Rightarrow> 'p \<Rightarrow> 'p) \<Rightarrow> string list \<Rightarrow> 'p deferred" where
  \<comment> \<open>\<open>*b = strings.ToUpper(values[0]) == "DESC"\<close>\<close>
  "ScanDescending_Capture put vs p =
     (case vs of [] \<Rightarrow> None | v # _ \<Rightarrow> Some (put (ToUpper v = ''DESC'') p))"

section \<open>The grammar of the struct tags\<close>

text \<open>
  The grammar of a struct is its field tags, joined in the order of the fields; the fields
  of an embedded struct count as fields of the struct that embeds it. Each definition
  below is the tags of one struct, node by node.
\<close>

definition Ident_or_QuotedIdent :: "'p node" where
  \<comment> \<open>\<open>(Ident | QuotedIdent)\<close>\<close>
  "Ident_or_QuotedIdent = disjunction [reference Ident, reference QuotedIdent]"

definition parse_ProvisionedThroughput :: "token list \<Rightarrow> ProvisionedThroughput result" where
  "parse_ProvisionedThroughput =
     strct \<lparr>ProvisionedThroughput_ReadCapacityUnits = 0,
            ProvisionedThroughput_WriteCapacityUnits = 0\<rparr>
       (sequence
         [literal ''PROVISIONED'', literal ''THROUGHPUT'', literal ''READ'',
          capture (set_int (\<lambda>v p. p\<lparr>ProvisionedThroughput_ReadCapacityUnits := v\<rparr>))
            (reference Number),
          literal ''WRITE'',
          capture (set_int (\<lambda>v p. p\<lparr>ProvisionedThroughput_WriteCapacityUnits := v\<rparr>))
            (reference Number)])"

definition parse_Projection :: "token list \<Rightarrow> Projection result" where
  "parse_Projection =
     strct \<lparr>Projection_KeysOnly = False, Projection_All = False, Projection_Include = []\<rparr>
       (disjunction
         [capture (set_bool (\<lambda>v p. p\<lparr>Projection_KeysOnly := v\<rparr>))
            (sequence [literal ''KEYS'', literal ''ONLY'']),
          capture (set_bool (\<lambda>v p. p\<lparr>Projection_All := v\<rparr>)) (literal ''ALL''),
          sequence
            [literal ''INCLUDE'',
             sequence
               [capture (append_string Projection_Include (\<lambda>v p. p\<lparr>Projection_Include := v\<rparr>))
                  Ident_or_QuotedIdent,
                repetition
                  (sequence
                    [literal '','',
                     capture (append_string Projection_Include
                                (\<lambda>v p. p\<lparr>Projection_Include := v\<rparr>))
                       Ident_or_QuotedIdent])]]])"

definition parse_GlobalSecondaryIndex :: "token list \<Rightarrow> GlobalSecondaryIndex result" where
  "parse_GlobalSecondaryIndex =
     strct \<lparr>GlobalSecondaryIndex_Name = [], GlobalSecondaryIndex_PartitionKey = [],
            GlobalSecondaryIndex_SortKey = [], GlobalSecondaryIndex_Projection = None,
            GlobalSecondaryIndex_ProvisionedThroughput = None\<rparr>
       (sequence
         [literal ''GLOBAL'', literal ''SECONDARY'', literal ''INDEX'',
          capture (set_string GlobalSecondaryIndex_Name (\<lambda>v p. p\<lparr>GlobalSecondaryIndex_Name := v\<rparr>))
            Ident_or_QuotedIdent,
          literal ''HASH'', literal ''('',
          capture (set_string GlobalSecondaryIndex_PartitionKey
                     (\<lambda>v p. p\<lparr>GlobalSecondaryIndex_PartitionKey := v\<rparr>))
            Ident_or_QuotedIdent,
          literal '')'',
          literal ''RANGE'', literal ''('',
          capture (set_string GlobalSecondaryIndex_SortKey
                     (\<lambda>v p. p\<lparr>GlobalSecondaryIndex_SortKey := v\<rparr>))
            Ident_or_QuotedIdent,
          literal '')'',
          literal ''PROJECTION'',
          capture_struct (set_struct (\<lambda>v p. p\<lparr>GlobalSecondaryIndex_Projection := v\<rparr>))
            parse_Projection,
          capture_struct (set_struct (\<lambda>v p. p\<lparr>GlobalSecondaryIndex_ProvisionedThroughput := v\<rparr>))
            parse_ProvisionedThroughput])"

definition parse_LocalSecondaryIndex :: "token list \<Rightarrow> LocalSecondaryIndex result" where
  "parse_LocalSecondaryIndex =
     strct \<lparr>LocalSecondaryIndex_Name = [], LocalSecondaryIndex_SortKey = [],
            LocalSecondaryIndex_Projection = None\<rparr>
       (sequence
         [literal ''LOCAL'', literal ''SECONDARY'', literal ''INDEX'',
          capture (set_string LocalSecondaryIndex_Name (\<lambda>v p. p\<lparr>LocalSecondaryIndex_Name := v\<rparr>))
            Ident_or_QuotedIdent,
          literal ''RANGE'', literal ''('',
          capture (set_string LocalSecondaryIndex_SortKey
                     (\<lambda>v p. p\<lparr>LocalSecondaryIndex_SortKey := v\<rparr>))
            Ident_or_QuotedIdent,
          literal '')'',
          literal ''PROJECTION'',
          capture_struct (set_struct (\<lambda>v p. p\<lparr>LocalSecondaryIndex_Projection := v\<rparr>))
            parse_Projection])"

definition parse_TableAttr :: "token list \<Rightarrow> TableAttr result" where
  "parse_TableAttr =
     strct \<lparr>TableAttr_Name = [], TableAttr_Type = [], TableAttr_Key = []\<rparr>
       (sequence
         [capture (set_string TableAttr_Name (\<lambda>v p. p\<lparr>TableAttr_Name := v\<rparr>))
            Ident_or_QuotedIdent,
          capture (set_string TableAttr_Type (\<lambda>v p. p\<lparr>TableAttr_Type := v\<rparr>))
            (disjunction [literal ''STRING'', literal ''NUMBER'', literal ''BINARY'']),
          optional
            (sequence
              [capture (set_string TableAttr_Key (\<lambda>v p. p\<lparr>TableAttr_Key := v\<rparr>))
                 (disjunction [literal ''HASH'', literal ''RANGE'']),
               literal ''KEY''])])"

definition parse_CreateTableEntry :: "token list \<Rightarrow> CreateTableEntry result" where
  "parse_CreateTableEntry =
     strct \<lparr>CreateTableEntry_GlobalSecondaryIndex = None,
            CreateTableEntry_LocalSecondaryIndex = None,
            CreateTableEntry_ProvisionedThroughput = None, CreateTableEntry_Attr = None\<rparr>
       (disjunction
         [capture_struct (set_struct (\<lambda>v p. p\<lparr>CreateTableEntry_GlobalSecondaryIndex := v\<rparr>))
            parse_GlobalSecondaryIndex,
          capture_struct (set_struct (\<lambda>v p. p\<lparr>CreateTableEntry_LocalSecondaryIndex := v\<rparr>))
            parse_LocalSecondaryIndex,
          capture_struct (set_struct (\<lambda>v p. p\<lparr>CreateTableEntry_ProvisionedThroughput := v\<rparr>))
            parse_ProvisionedThroughput,
          capture_struct (set_struct (\<lambda>v p. p\<lparr>CreateTableEntry_Attr := v\<rparr>))
            parse_TableAttr])"

definition parse_CreateTable :: "token list \<Rightarrow> CreateTable result" where
  "parse_CreateTable =
     strct \<lparr>CreateTable_Table = [], CreateTable_Entries = []\<rparr>
       (sequence
         [capture (set_string CreateTable_Table (\<lambda>v p. p\<lparr>CreateTable_Table := v\<rparr>))
            Ident_or_QuotedIdent,
          literal ''('',
          capture_struct (append_struct CreateTable_Entries (\<lambda>v p. p\<lparr>CreateTable_Entries := v\<rparr>))
            parse_CreateTableEntry,
          repetition
            (sequence
              [literal '','',
               capture_struct (append_struct CreateTable_Entries
                                 (\<lambda>v p. p\<lparr>CreateTable_Entries := v\<rparr>))
                 parse_CreateTableEntry]),
          literal '')''])"

definition Scalar_zero :: Scalar where
  "Scalar_zero =
     \<lparr>Scalar_Number = None, Scalar_Str = None, Scalar_Boolean = None, Scalar_Null = False\<rparr>"

definition Scalar_alternatives :: "('p \<Rightarrow> Scalar) \<Rightarrow> (Scalar \<Rightarrow> 'p \<Rightarrow> 'p) \<Rightarrow> 'p node list" where
  \<comment> \<open>the tags of \<open>Scalar\<close>, in a struct that embeds it:
      \<open>@Number | @String | @("TRUE" | "FALSE") | @"NULL"\<close>\<close>
  "Scalar_alternatives get put =
     [capture (set_float (\<lambda>v p. put ((get p)\<lparr>Scalar_Number := Some v\<rparr>) p)) (reference Number),
      capture (set_string_ptr (\<lambda>p. Scalar_Str (get p)) (\<lambda>v p. put ((get p)\<lparr>Scalar_Str := v\<rparr>) p))
        (reference String),
      capture (Boolean_Capture (\<lambda>v p. put ((get p)\<lparr>Scalar_Boolean := Some v\<rparr>) p))
        (disjunction [literal ''TRUE'', literal ''FALSE'']),
      capture (set_bool (\<lambda>v p. put ((get p)\<lparr>Scalar_Null := v\<rparr>) p)) (literal ''NULL'')]"

definition Value_zero :: Value where
  "Value_zero =
     \<lparr>Value_Scalar = Scalar_zero, Value_PlaceHolder = None, Value_PositionalPlaceholder = False\<rparr>"

definition Value_alternatives :: "('p \<Rightarrow> Value) \<Rightarrow> (Value \<Rightarrow> 'p \<Rightarrow> 'p) \<Rightarrow> 'p node list" where
  \<comment> \<open>the tags of \<open>Value\<close>: those of \<open>Scalar\<close>, then \<open>| @":" @Ident | @"?"\<close>\<close>
  "Value_alternatives get put =
     Scalar_alternatives (\<lambda>p. Value_Scalar (get p)) (\<lambda>v p. put ((get p)\<lparr>Value_Scalar := v\<rparr>) p) @
     [sequence
        [capture (set_string_ptr (\<lambda>p. Value_PlaceHolder (get p))
                    (\<lambda>v p. put ((get p)\<lparr>Value_PlaceHolder := v\<rparr>) p))
           (literal '':''),
         capture (set_string_ptr (\<lambda>p. Value_PlaceHolder (get p))
                    (\<lambda>v p. put ((get p)\<lparr>Value_PlaceHolder := v\<rparr>) p))
           (reference Ident)],
      capture (set_bool (\<lambda>v p. put ((get p)\<lparr>Value_PositionalPlaceholder := v\<rparr>) p))
        (literal ''?'')]"

definition parse_Value :: "token list \<Rightarrow> Value result" where
  "parse_Value = strct Value_zero (disjunction (Value_alternatives (\<lambda>p. p) (\<lambda>v p. v)))"

definition parse_PathFragment :: "token list \<Rightarrow> PathFragment result" where
  "parse_PathFragment =
     strct \<lparr>PathFragment_Symbol = [], PathFragment_Indexes = []\<rparr>
       (sequence
         [disjunction
            [capture (set_string PathFragment_Symbol (\<lambda>v p. p\<lparr>PathFragment_Symbol := v\<rparr>))
               (reference Ident),
             capture (set_string PathFragment_Symbol (\<lambda>v p. p\<lparr>PathFragment_Symbol := v\<rparr>))
               (reference QuotedIdent)],
          repetition
            (sequence
              [literal ''['',
               capture (append_int PathFragment_Indexes (\<lambda>v p. p\<lparr>PathFragment_Indexes := v\<rparr>))
                 (reference Number),
               literal '']''])])"

definition parse_DocumentPath :: "token list \<Rightarrow> DocumentPath result" where
  "parse_DocumentPath =
     strct \<lparr>DocumentPath_Fragment = []\<rparr>
       (sequence
         [capture_struct (append_struct DocumentPath_Fragment
                            (\<lambda>v p. p\<lparr>DocumentPath_Fragment := v\<rparr>))
            parse_PathFragment,
          repetition
            (sequence
              [literal ''.'',
               capture_struct (append_struct DocumentPath_Fragment
                                 (\<lambda>v p. p\<lparr>DocumentPath_Fragment := v\<rparr>))
                 parse_PathFragment])])"

definition parse_Operand :: "token list \<Rightarrow> Operand result" where
  "parse_Operand =
     strct \<lparr>Operand_Value = None, Operand_SymbolRef = None\<rparr>
       (disjunction
         [capture_struct (set_struct (\<lambda>v p. p\<lparr>Operand_Value := v\<rparr>)) parse_Value,
          capture_struct (set_struct (\<lambda>v p. p\<lparr>Operand_SymbolRef := v\<rparr>)) parse_DocumentPath])"

definition parse_Between :: "token list \<Rightarrow> Between result" where
  "parse_Between =
     strct \<lparr>Between_Start = None, Between_End = None\<rparr>
       (sequence
         [capture_struct (set_struct (\<lambda>v p. p\<lparr>Between_Start := v\<rparr>)) parse_Operand,
          literal ''AND'',
          capture_struct (set_struct (\<lambda>v p. p\<lparr>Between_End := v\<rparr>)) parse_Operand])"

definition parse_Compare :: "token list \<Rightarrow> Compare result" where
  "parse_Compare =
     strct \<lparr>Compare_Operator = [], Compare_Operand = None\<rparr>
       (sequence
         [capture (set_string Compare_Operator (\<lambda>v p. p\<lparr>Compare_Operator := v\<rparr>))
            (disjunction
              [literal ''<>'', literal ''<='', literal ''>='', literal ''='', literal ''<'',
               literal ''>'', literal ''!='']),
          capture_struct (set_struct (\<lambda>v p. p\<lparr>Compare_Operand := v\<rparr>)) parse_Operand])"

definition parse_In :: "token list \<Rightarrow> In result" where
  "parse_In =
     strct \<lparr>In_Values = []\<rparr>
       (sequence
         [capture_struct (append_struct In_Values (\<lambda>v p. p\<lparr>In_Values := v\<rparr>)) parse_Value,
          repetition
            (sequence
              [literal '','',
               capture_struct (append_struct In_Values (\<lambda>v p. p\<lparr>In_Values := v\<rparr>))
                 parse_Value])])"

definition parse_ConditionRHS :: "token list \<Rightarrow> ConditionRHS result" where
  "parse_ConditionRHS =
     strct \<lparr>ConditionRHS_Compare = None, ConditionRHS_Between = None, ConditionRHS_In = None\<rparr>
       (disjunction
         [capture_struct (set_struct (\<lambda>v p. p\<lparr>ConditionRHS_Compare := v\<rparr>)) parse_Compare,
          sequence
            [literal ''BETWEEN'',
             capture_struct (set_struct (\<lambda>v p. p\<lparr>ConditionRHS_Between := v\<rparr>)) parse_Between],
          sequence
            [literal ''IN'', literal ''('',
             capture_struct (set_struct (\<lambda>v p. p\<lparr>ConditionRHS_In := v\<rparr>)) parse_In,
             literal '')'']])"

definition parse_ConditionOperand :: "token list \<Rightarrow> ConditionOperand result" where
  "parse_ConditionOperand =
     strct \<lparr>ConditionOperand_Operand = None, ConditionOperand_ConditionRHS = None\<rparr>
       (sequence
         [capture_struct (set_struct (\<lambda>v p. p\<lparr>ConditionOperand_Operand := v\<rparr>))
            parse_DocumentPath,
          capture_struct (set_struct (\<lambda>v p. p\<lparr>ConditionOperand_ConditionRHS := v\<rparr>))
            parse_ConditionRHS])"

definition parse_FunctionArgument :: "token list \<Rightarrow> FunctionArgument result" where
  "parse_FunctionArgument =
     strct \<lparr>FunctionArgument_DocumentPath = None, FunctionArgument_Value = None\<rparr>
       (disjunction
         [capture_struct (set_struct (\<lambda>v p. p\<lparr>FunctionArgument_DocumentPath := v\<rparr>))
            parse_DocumentPath,
          capture_struct (set_struct (\<lambda>v p. p\<lparr>FunctionArgument_Value := v\<rparr>)) parse_Value])"

definition parse_FunctionExpression :: "token list \<Rightarrow> FunctionExpression result" where
  "parse_FunctionExpression =
     strct \<lparr>FunctionExpression_Function = [], FunctionExpression_Args = []\<rparr>
       (sequence
         [capture (set_string FunctionExpression_Function
                     (\<lambda>v p. p\<lparr>FunctionExpression_Function := v\<rparr>))
            (reference Ident),
          literal ''('',
          capture_struct (append_struct FunctionExpression_Args
                            (\<lambda>v p. p\<lparr>FunctionExpression_Args := v\<rparr>))
            parse_FunctionArgument,
          repetition
            (sequence
              [literal '','',
               capture_struct (append_struct FunctionExpression_Args
                                 (\<lambda>v p. p\<lparr>FunctionExpression_Args := v\<rparr>))
                 parse_FunctionArgument]),
          literal '')''])"

text \<open>
  \<open>Condition\<close> and the JSON values refer to themselves. Their parsers carry the number of
  structs that may still be entered, one less at every struct; \<open>Parse\<close> starts with more
  than the tokens of the statement allow to nest. Running out is \<open>Panic\<close>.
\<close>

fun parse_ConditionExpression :: "nat \<Rightarrow> token list \<Rightarrow> ConditionExpression result"
and parse_AndExpression :: "nat \<Rightarrow> token list \<Rightarrow> AndExpression result"
and parse_ParenthesizedExpression :: "nat \<Rightarrow> token list \<Rightarrow> ParenthesizedExpression result"
and parse_Condition :: "nat \<Rightarrow> token list \<Rightarrow> Condition result"
and parse_NotCondition :: "nat \<Rightarrow> token list \<Rightarrow> NotCondition result" where
  "parse_ConditionExpression 0 ts = Panic"
| "parse_ConditionExpression (Suc k) ts =
     strct (ConditionExpression [])
       (sequence
         [capture_struct
            (append_struct ConditionExpression_Or (\<lambda>v p. ConditionExpression v))
            (parse_AndExpression k),
          repetition
            (sequence
              [literal ''OR'',
               capture_struct
                 (append_struct ConditionExpression_Or (\<lambda>v p. ConditionExpression v))
                 (parse_AndExpression k)])]) ts"
| "parse_AndExpression 0 ts = Panic"
| "parse_AndExpression (Suc k) ts =
     strct (AndExpression [])
       (sequence
         [capture_struct (append_struct AndExpression_And (\<lambda>v p. AndExpression v))
            (parse_Condition k),
          repetition
            (sequence
              [literal ''AND'',
               capture_struct (append_struct AndExpression_And (\<lambda>v p. AndExpression v))
                 (parse_Condition k)])]) ts"
| "parse_ParenthesizedExpression 0 ts = Panic"
| "parse_ParenthesizedExpression (Suc k) ts =
     strct (ParenthesizedExpression None)
       (capture_struct (set_struct (\<lambda>v p. ParenthesizedExpression v))
          (parse_ConditionExpression k)) ts"
| "parse_Condition 0 ts = Panic"
| "parse_Condition (Suc k) ts =
     strct (Condition None None None None)
       (disjunction
         [sequence
            [literal ''('',
             capture_struct
               (set_struct (\<lambda>v p. Condition v (Condition_Not p) (Condition_Operand p)
                                     (Condition_Function p)))
               (parse_ParenthesizedExpression k),
             literal '')''],
          sequence
            [literal ''NOT'',
             capture_struct
               (set_struct (\<lambda>v p. Condition (Condition_Parenthesized p) v (Condition_Operand p)
                                     (Condition_Function p)))
               (parse_NotCondition k)],
          capture_struct
            (set_struct (\<lambda>v p. Condition (Condition_Parenthesized p) (Condition_Not p) v
                                  (Condition_Function p)))
            parse_ConditionOperand,
          capture_struct
            (set_struct (\<lambda>v p. Condition (Condition_Parenthesized p) (Condition_Not p)
                                  (Condition_Operand p) v))
            parse_FunctionExpression]) ts"
| "parse_NotCondition 0 ts = Panic"
| "parse_NotCondition (Suc k) ts =
     strct (NotCondition None)
       (capture_struct (set_struct (\<lambda>v p. NotCondition v)) (parse_Condition k)) ts"

fun parse_JSONObjectEntry :: "nat \<Rightarrow> token list \<Rightarrow> JSONObjectEntry result"
and parse_JSONObject :: "nat \<Rightarrow> token list \<Rightarrow> JSONObject result"
and parse_JSONArray :: "nat \<Rightarrow> token list \<Rightarrow> JSONArray result"
and parse_JSONValue :: "nat \<Rightarrow> token list \<Rightarrow> JSONValue result" where
  "parse_JSONObjectEntry 0 ts = Panic"
| "parse_JSONObjectEntry (Suc k) ts =
     strct (JSONObjectEntry [] None)
       (sequence
         [capture (set_string JSONObjectEntry_Key
                     (\<lambda>v p. JSONObjectEntry v (JSONObjectEntry_Value p)))
            (disjunction [reference Ident, reference String]),
          literal '':'',
          capture_struct (set_struct (\<lambda>v p. JSONObjectEntry (JSONObjectEntry_Key p) v))
            (parse_JSONValue k)]) ts"
| "parse_JSONObject 0 ts = Panic"
| "parse_JSONObject (Suc k) ts =
     strct (JSONObject [])
       (sequence
         [literal ''{'',
          optional
            (sequence
              [capture_struct (append_struct JSONObject_Entries (\<lambda>v p. JSONObject v))
                 (parse_JSONObjectEntry k),
               repetition
                 (sequence
                   [literal '','',
                    capture_struct (append_struct JSONObject_Entries (\<lambda>v p. JSONObject v))
                      (parse_JSONObjectEntry k)]),
               optional (literal '','')]),
          literal ''}'']) ts"
| "parse_JSONArray 0 ts = Panic"
| "parse_JSONArray (Suc k) ts =
     strct (JSONArray [])
       (sequence
         [literal ''['',
          optional
            (sequence
              [capture_struct (append_struct JSONArray_Entries (\<lambda>v p. JSONArray v))
                 (parse_JSONValue k),
               repetition
                 (sequence
                   [literal '','',
                    capture_struct (append_struct JSONArray_Entries (\<lambda>v p. JSONArray v))
                      (parse_JSONValue k)]),
               optional (literal '','')]),
          literal '']'']) ts"
| "parse_JSONValue 0 ts = Panic"
| "parse_JSONValue (Suc k) ts =
     strct (JSONValue Scalar_zero None None)
       (disjunction
         (Scalar_alternatives JSONValue_Scalar
            (\<lambda>v p. JSONValue v (JSONValue_Object p) (JSONValue_Array p)) @
          [capture_struct
             (set_struct (\<lambda>v p. JSONValue (JSONValue_Scalar p) v (JSONValue_Array p)))
             (parse_JSONObject k),
           capture_struct
             (set_struct (\<lambda>v p. JSONValue (JSONValue_Scalar p) (JSONValue_Object p) v))
             (parse_JSONArray k)])) ts"

definition parse_InsertTerminal :: "nat \<Rightarrow> token list \<Rightarrow> InsertTerminal result" where
  "parse_InsertTerminal k =
     strct \<lparr>InsertTerminal_Value = Value_zero, InsertTerminal_Object = None\<rparr>
       (disjunction
         (Value_alternatives InsertTerminal_Value (\<lambda>v p. p\<lparr>InsertTerminal_Value := v\<rparr>) @
          [capture_struct (set_struct (\<lambda>v p. p\<lparr>InsertTerminal_Object := v\<rparr>))
             (parse_JSONObject k)]))"

definition Insert_zero :: Insert where
  "Insert_zero = \<lparr>Insert_Into = [], Insert_Values = [], Insert_Returning = None\<rparr>"

definition Insert_Into_Values :: "nat \<Rightarrow> Insert node list" where
  \<comment> \<open>the tags of \<open>Into\<close> and \<open>Values\<close>\<close>
  "Insert_Into_Values k =
     [literal ''INTO'',
      disjunction
        [sequence
           [capture (set_string Insert_Into (\<lambda>v p. p\<lparr>Insert_Into := v\<rparr>)) (reference Ident),
            repetition
              (sequence
                [capture (set_string Insert_Into (\<lambda>v p. p\<lparr>Insert_Into := v\<rparr>)) (literal ''.''),
                 capture (set_string Insert_Into (\<lambda>v p. p\<lparr>Insert_Into := v\<rparr>))
                   (reference Ident)])],
         capture (set_string Insert_Into (\<lambda>v p. p\<lparr>Insert_Into := v\<rparr>))
           (reference QuotedIdent)],
      literal ''VALUES'', literal ''('',
      capture_struct (append_struct Insert_Values (\<lambda>v p. p\<lparr>Insert_Values := v\<rparr>))
        (parse_InsertTerminal k),
      literal '')'',
      repetition
        (sequence
          [literal '','', literal ''('',
           capture_struct (append_struct Insert_Values (\<lambda>v p. p\<lparr>Insert_Values := v\<rparr>))
             (parse_InsertTerminal k),
           literal '')''])]"

definition Insert_Returning_clause :: "Insert node" where
  \<comment> \<open>the tag of \<open>Returning\<close>: \<open>( "RETURNING" @( "NONE" | "ALL_OLD" ) )?\<close>\<close>
  "Insert_Returning_clause =
     optional
       (sequence
         [literal ''RETURNING'',
          capture (set_string_ptr Insert_Returning (\<lambda>v p. p\<lparr>Insert_Returning := v\<rparr>))
            (disjunction [literal ''NONE'', literal ''ALL_OLD''])])"

definition parse_Insert :: "nat \<Rightarrow> token list \<Rightarrow> Insert result" where
  "parse_Insert k = strct Insert_zero (sequence (Insert_Into_Values k @ [Insert_Returning_clause]))"

definition parse_ProjectionColumn :: "token list \<Rightarrow> ProjectionColumn result" where
  "parse_ProjectionColumn =
     strct \<lparr>ProjectionColumn_Function = None, ProjectionColumn_DocumentPath = None\<rparr>
       (disjunction
         [capture_struct (set_struct (\<lambda>v p. p\<lparr>ProjectionColumn_Function := v\<rparr>))
            parse_FunctionExpression,
          capture_struct (set_struct (\<lambda>v p. p\<lparr>ProjectionColumn_DocumentPath := v\<rparr>))
            parse_DocumentPath])"

definition parse_ProjectionExpression :: "token list \<Rightarrow> ProjectionExpression result" where
  "parse_ProjectionExpression =
     strct \<lparr>ProjectionExpression_All = False, ProjectionExpression_Columns = []\<rparr>
       (disjunction
         [disjunction
            [capture (set_bool (\<lambda>v p. p\<lparr>ProjectionExpression_All := v\<rparr>)) (literal ''*''),
             sequence
               [literal ''document'', literal ''('',
                capture (set_bool (\<lambda>v p. p\<lparr>ProjectionExpression_All := v\<rparr>)) (literal ''*''),
                literal '')'']],
          sequence
            [capture_struct (append_struct ProjectionExpression_Columns
                               (\<lambda>v p. p\<lparr>ProjectionExpression_Columns := v\<rparr>))
               parse_ProjectionColumn,
             repetition
               (sequence
                 [literal '','',
                  capture_struct (append_struct ProjectionExpression_Columns
                                    (\<lambda>v p. p\<lparr>ProjectionExpression_Columns := v\<rparr>))
                    parse_ProjectionColumn])]])"

definition parse_Select :: "nat \<Rightarrow> token list \<Rightarrow> Select result" where
  "parse_Select k =
     strct \<lparr>Select_Projection = None, Select_From = [], Select_Index = None, Select_Where = None,
            Select_Descending = None, Select_Limit = None\<rparr>
       (sequence
         [capture_struct (set_struct (\<lambda>v p. p\<lparr>Select_Projection := v\<rparr>))
            parse_ProjectionExpression,
          literal ''FROM'',
          disjunction
            [sequence
               [capture (set_string Select_From (\<lambda>v p. p\<lparr>Select_From := v\<rparr>)) (reference Ident),
                repetition
                  (sequence
                    [capture (set_string Select_From (\<lambda>v p. p\<lparr>Select_From := v\<rparr>))
                       (literal ''.''),
                     capture (set_string Select_From (\<lambda>v p. p\<lparr>Select_From := v\<rparr>))
                       (reference Ident)])],
             capture (set_string Select_From (\<lambda>v p. p\<lparr>Select_From := v\<rparr>))
               (reference QuotedIdent)],
          optional
            (sequence
              [literal ''USE'', literal ''INDEX'', literal ''('',
               capture (set_string_ptr Select_Index (\<lambda>v p. p\<lparr>Select_Index := v\<rparr>))
                 (reference Ident),
               literal '')'']),
          optional
            (sequence
              [literal ''WHERE'',
               capture_struct (set_struct (\<lambda>v p. p\<lparr>Select_Where := v\<rparr>))
                 (parse_AndExpression k)]),
          optional
            (disjunction
              [capture (ScanDescending_Capture (\<lambda>v p. p\<lparr>Select_Descending := Some v\<rparr>))
                 (literal ''ASC''),
               capture (ScanDescending_Capture (\<lambda>v p. p\<lparr>Select_Descending := Some v\<rparr>))
                 (literal ''DESC'')]),
          optional
            (sequence
              [literal ''LIMIT'',
               capture (set_int (\<lambda>v p. p\<lparr>Select_Limit := Some v\<rparr>)) (reference Number)])])"

definition AST_zero :: AST where
  "AST_zero = \<lparr>AST_Select = None, AST_Insert = None, AST_Replace = None, AST_CreateTable = None\<rparr>"

definition parse_AST :: "nat \<Rightarrow> token list \<Rightarrow> AST result" where
  "parse_AST k =
     strct AST_zero
       (sequence
         [disjunction
            [sequence
               [literal ''SELECT'',
                capture_struct (set_struct (\<lambda>v p. p\<lparr>AST_Select := v\<rparr>)) (parse_Select k)],
             sequence
               [literal ''INSERT'',
                capture_struct (set_struct (\<lambda>v p. p\<lparr>AST_Insert := v\<rparr>)) (parse_Insert k)],
             sequence
               [literal ''REPLACE'',
                capture_struct (set_struct (\<lambda>v p. p\<lparr>AST_Replace := v\<rparr>)) (parse_Insert k)],
             sequence
               [literal ''CREATE'', literal ''TABLE'',
                capture_struct (set_struct (\<lambda>v p. p\<lparr>AST_CreateTable := v\<rparr>))
                  parse_CreateTable]],
          optional (literal '';'')])"

section \<open>Parse\<close>

text \<open>
  \<open>Parse\<close> runs the parser on the text: the lexer and the token mappers, the grammar of
  \<open>AST\<close>, and the end of the input after it. The Go function returns a pointer to the
  tree together with the error; the tree counts only when the error is \<open>nil\<close>, which is
  the \<open>Inr\<close> here. A nesting of \<open>n\<close> structs reads at least \<open>n div 4\<close> tokens.
\<close>

definition ParseTokens :: "token list \<Rightarrow> error + AST" where
  "ParseTokens ts =
     (case parse_AST (4 * length ts + 4) ts of
        Match a r \<Rightarrow> if r = [] then Inr a else Inl ParseError
      | NoMatch \<Rightarrow> Inl ParseError
      | Error r \<Rightarrow> Inl ParseError
      | Panic \<Rightarrow> Inl ParseError)"

definition Parse :: "string \<Rightarrow> error + AST" where
  "Parse s = (case Lex s of Inl e \<Rightarrow> Inl e | Inr ts \<Rightarrow> ParseTokens ts)"

section \<open>Properties of the lexer's case folding\<close>

lemma ascii_upper_C5 [simp]: "ascii_upper (CHR 0xC5) = CHR 0xC5"
  by (simp add: ascii_upper_def)

lemma ascii_upper_E2 [simp]: "ascii_upper (CHR 0xE2) = CHR 0xE2"
  by (simp add: ascii_upper_def)

lemma fold_char_unique:
  assumes "fold_char p s = Some (r1, w1)" and "fold_char q s = Some (r2, w2)"
    and "(of_char p :: nat) < 128" and "(of_char q :: nat) < 128"
  shows "p = q \<and> r1 = r2 \<and> w1 = w2"
proof (cases s)
  case Nil
  with assms show ?thesis by simp
next
  case (Cons c cs)
  with assms show ?thesis
    by (auto split: if_splits)
qed

lemma match_fold_unique:
  assumes "match_fold a w v = Some ([], w1)" and "match_fold b w v = Some ([], w2)"
    and "\<forall>c \<in> set a. (of_char c :: nat) < 128" and "\<forall>c \<in> set b. (of_char c :: nat) < 128"
  shows "a = b"
  using assms
proof (induction a arbitrary: b w v)
  case Nil
  then show ?case by (cases b) (auto split: option.splits)
next
  case (Cons p ps)
  show ?case
  proof (cases b)
    case Nil
    with Cons.prems show ?thesis by (auto split: option.splits)
  next
    case (Cons q qs)
    from Cons.prems(1) obtain r1 x1 where 1: "fold_char p v = Some (r1, x1)"
      and 2: "match_fold ps x1 r1 = Some ([], w1)"
      by (auto split: option.splits)
    from Cons.prems(2) Cons obtain r2 x2 where 3: "fold_char q v = Some (r2, x2)"
      and 4: "match_fold qs x2 r2 = Some ([], w2)"
      by (auto split: option.splits)
    from fold_char_unique [OF 1 3] Cons.prems(3,4) Cons
    have 5: "p = q" "r1 = r2" "x1 = x2" by auto
    from Cons.IH [OF 2 4 [folded 5]] Cons.prems(3,4) Cons have "ps = qs" by simp
    with 5 Cons show ?thesis by simp
  qed
qed

lemma ascii_upper_ascii: "(of_char c :: nat) < 128 \<Longrightarrow> (of_char (ascii_upper c) :: nat) < 128"
  by (auto simp: ascii_upper_def split: option.splits dest!: map_of_SomeD)

lemma EqualFold_unique:
  assumes "EqualFold v a" and "EqualFold v b"
    and "\<forall>c \<in> set a. (of_char c :: nat) < 128" and "\<forall>c \<in> set b. (of_char c :: nat) < 128"
  shows "map ascii_upper a = map ascii_upper b"
proof -
  from assms(1) obtain w1 where 1: "match_fold (map ascii_upper a) False v = Some ([], w1)"
    by (auto simp: EqualFold_def split: option.splits)
  from assms(2) obtain w2 where 2: "match_fold (map ascii_upper b) False v = Some ([], w2)"
    by (auto simp: EqualFold_def split: option.splits)
  show ?thesis
    by (rule match_fold_unique [OF 1 2]) (use assms(3,4) in \<open>auto intro: ascii_upper_ascii\<close>)
qed

lemma matches_literal_unique:
  assumes "matches_literal a t" and "matches_literal b t"
    and "\<forall>c \<in> set a. (of_char c :: nat) < 128" and "\<forall>c \<in> set b. (of_char c :: nat) < 128"
  shows "map ascii_upper a = map ascii_upper b"
proof (cases "Type t = Keyword")
  case True
  with assms show ?thesis by (auto simp: matches_literal_def intro: EqualFold_unique)
next
  case False
  with assms(1,2) show ?thesis by (simp add: matches_literal_def)
qed

lemma matches_literal_other:
  assumes "matches_literal a t" and "map ascii_upper a \<noteq> map ascii_upper b"
    and "\<forall>c \<in> set a. (of_char c :: nat) < 128" and "\<forall>c \<in> set b. (of_char c :: nat) < 128"
  shows "\<not> matches_literal b t"
  using matches_literal_unique [OF assms(1) _ assms(3,4)] assms(2) by blast

lemma parse_PathFragment_Keyword: "Type t = Keyword \<Longrightarrow> parse_PathFragment (t # ts) = NoMatch"
  by (simp add: parse_PathFragment_def strct_def disjunction_def capture_def reference_def)

lemma parse_DocumentPath_Keyword: "Type t = Keyword \<Longrightarrow> parse_DocumentPath (t # ts) = NoMatch"
  by (simp add: parse_DocumentPath_def strct_def capture_struct_def parse_PathFragment_Keyword)

lemma parse_FunctionExpression_Keyword:
  "Type t = Keyword \<Longrightarrow> parse_FunctionExpression (t # ts) = NoMatch"
  by (simp add: parse_FunctionExpression_def strct_def capture_def reference_def)

lemma parse_ProjectionColumn_Keyword:
  "Type t = Keyword \<Longrightarrow> parse_ProjectionColumn (t # ts) = NoMatch"
  by (simp add: parse_ProjectionColumn_def strct_def disjunction_def capture_struct_def
      parse_DocumentPath_Keyword parse_FunctionExpression_Keyword)

lemma parse_ProjectionExpression_Keyword:
  assumes "Type t = Keyword" and "\<not> matches_literal ''*'' t" and "\<not> matches_literal ''document'' t"
  shows "parse_ProjectionExpression (t # ts) = NoMatch"
  using assms
  by (simp add: parse_ProjectionExpression_def strct_def disjunction_def capture_struct_def
      capture_def literal_def parse_ProjectionColumn_Keyword)

lemma parse_Select_no_projection:
  assumes "parse_ProjectionExpression ts = NoMatch"
  shows "parse_Select k ts = NoMatch"
  using assms by (simp add: parse_Select_def strct_def capture_struct_def)


lemma matches_literal_Operators [simp]: "matches_literal s (Token Operators v) = (v = s)"
  by (simp add: matches_literal_def)

section \<open>The claims\<close>

text \<open>
  C5. A SELECT statement with an empty projection list (\<open>SELECT FROM t\<close>) is rejected with
  a parse error and gives no tree: whenever the first token is taken for the word
  \<open>SELECT\<close> and the second is the keyword \<open>FROM\<close>, whatever follows, parsing fails.
\<close>

theorem Select_empty_projection_rejected:
  assumes "matches_literal ''SELECT'' t1" and "Type t2 = Keyword" and "matches_literal ''FROM'' t2"
  shows "ParseTokens (t1 # t2 # ts) = Inl ParseError"
proof -
  have a: "\<not> matches_literal ''*'' t2" "\<not> matches_literal ''document'' t2"
    by (rule matches_literal_other [OF assms(3)]; simp add: ascii_upper_def)+
  have b: "\<not> matches_literal ''INSERT'' t1" "\<not> matches_literal ''REPLACE'' t1"
    "\<not> matches_literal ''CREATE'' t1"
    by (rule matches_literal_other [OF assms(1)]; simp add: ascii_upper_def)+
  have c: "parse_Select k (t2 # ts) = NoMatch" for k
    by (rule parse_Select_no_projection, rule parse_ProjectionExpression_Keyword [OF assms(2) a])
  have "parse_AST k (t1 # t2 # ts) = Error (t1 # t2 # ts)" for k
    using assms(1) b
    by (simp add: parse_AST_def strct_def disjunction_def literal_def capture_struct_def c
        Stop_def lookahead_def)
  then show ?thesis by (simp add: ParseTokens_def)
qed

theorem Select_empty_projection_rejected_witness:
  "Lex ''SELECT FROM t'' =
     Inr [Token Keyword ''SELECT'', Token Keyword ''FROM'', Token Ident ''t''] \<and>
   matches_literal ''SELECT'' (Token Keyword ''SELECT'') \<and>
   matches_literal ''FROM'' (Token Keyword ''FROM'') \<and>
   Parse ''SELECT FROM t'' = Inl ParseError"
proof -
  have l: "Lex ''SELECT FROM t'' =
     Inr [Token Keyword ''SELECT'', Token Keyword ''FROM'', Token Ident ''t'']"
    by code_simp
  have m1: "matches_literal ''SELECT'' (Token Keyword ''SELECT'')" by code_simp
  have m2: "matches_literal ''FROM'' (Token Keyword ''FROM'')" by code_simp
  have "ParseTokens [Token Keyword ''SELECT'', Token Keyword ''FROM'', Token Ident ''t''] =
      Inl ParseError"
    using Select_empty_projection_rejected [OF m1 _ m2, of "[Token Ident ''t'']"] by simp
  with l m1 m2 show ?thesis by (simp add: Parse_def)
qed



end
